theory Spec2Isabelle
  imports Complex_Main
begin

section \<open>Values, errors and labels\<close>

text \<open>
  The notebooks compute on pandas Series of 64-bit floats. A float is modelled as an exact
  real number, the missing value NaN, or one of the two infinities that float division by
  zero produces. Rounding and the sign of zero are not modelled.
\<close>

datatype fl = NaN | Fin real | PInf | NInf

datatype error = ValueError | KeyError | IndexError | TypeError | DataError
  | ZeroDivisionError | RecursionError

datatype label = Buy | Sell | Hold

fun fneg :: "fl \<Rightarrow> fl" where
  "fneg NaN = NaN"
| "fneg (Fin a) = Fin (- a)"
| "fneg PInf = NInf"
| "fneg NInf = PInf"

fun fadd :: "fl \<Rightarrow> fl \<Rightarrow> fl" where
  "fadd NaN _ = NaN"
| "fadd _ NaN = NaN"
| "fadd (Fin a) (Fin b) = Fin (a + b)"
| "fadd PInf NInf = NaN"
| "fadd NInf PInf = NaN"
| "fadd PInf _ = PInf"
| "fadd _ PInf = PInf"
| "fadd NInf _ = NInf"
| "fadd _ NInf = NInf"

definition fsub :: "fl \<Rightarrow> fl \<Rightarrow> fl" where
  "fsub a b = fadd a (fneg b)"

fun fmul :: "fl \<Rightarrow> fl \<Rightarrow> fl" where
  "fmul NaN _ = NaN"
| "fmul _ NaN = NaN"
| "fmul (Fin a) (Fin b) = Fin (a * b)"
| "fmul (Fin a) PInf = (if a = 0 then NaN else if 0 < a then PInf else NInf)"
| "fmul (Fin a) NInf = (if a = 0 then NaN else if 0 < a then NInf else PInf)"
| "fmul PInf (Fin b) = (if b = 0 then NaN else if 0 < b then PInf else NInf)"
| "fmul NInf (Fin b) = (if b = 0 then NaN else if 0 < b then NInf else PInf)"
| "fmul PInf PInf = PInf"
| "fmul NInf NInf = PInf"
| "fmul PInf NInf = NInf"
| "fmul NInf PInf = NInf"

text \<open>Float division as numpy performs it on Series: a zero divisor gives an infinity
  (or NaN for \<open>0 / 0\<close>), never an exception.\<close>

fun fdiv :: "fl \<Rightarrow> fl \<Rightarrow> fl" where
  "fdiv NaN _ = NaN"
| "fdiv _ NaN = NaN"
| "fdiv (Fin a) (Fin b) =
     (if b \<noteq> 0 then Fin (a / b) else if 0 < a then PInf else if a < 0 then NInf else NaN)"
| "fdiv (Fin a) PInf = Fin 0"
| "fdiv (Fin a) NInf = Fin 0"
| "fdiv PInf (Fin b) = (if 0 \<le> b then PInf else NInf)"
| "fdiv NInf (Fin b) = (if 0 \<le> b then NInf else PInf)"
| "fdiv PInf PInf = NaN"
| "fdiv PInf NInf = NaN"
| "fdiv NInf PInf = NaN"
| "fdiv NInf NInf = NaN"

text \<open>Comparisons: every comparison with NaN is false.\<close>

fun flt :: "fl \<Rightarrow> fl \<Rightarrow> bool" where
  "flt NaN _ = False"
| "flt _ NaN = False"
| "flt (Fin a) (Fin b) = (a < b)"
| "flt (Fin a) PInf = True"
| "flt (Fin a) NInf = False"
| "flt PInf _ = False"
| "flt NInf NInf = False"
| "flt NInf _ = True"

definition fgt :: "fl \<Rightarrow> fl \<Rightarrow> bool" where
  "fgt a b = flt b a"

definition is_obs :: "fl \<Rightarrow> bool" where
  "is_obs v = (v \<noteq> NaN)"

definition bindE :: "error + 'a \<Rightarrow> ('a \<Rightarrow> error + 'b) \<Rightarrow> error + 'b" where
  "bindE m f = (case m of Inl e \<Rightarrow> Inl e | Inr x \<Rightarrow> f x)"

text \<open>Python's \<open>a / b\<close> on numbers raises ZeroDivisionError for a zero divisor.\<close>

definition py_div :: "real \<Rightarrow> real \<Rightarrow> error + real" where
  "py_div a b = (if b = 0 then Inl ZeroDivisionError else Inr (a / b))"

section \<open>Rolling mean and standard deviation (pandas \<open>rolling(window)\<close>)\<close>

text \<open>
  pandas computes a fixed-window rolling mean with a running sum over the observations
  (the values that are not NaN): at row \<open>i\<close> it removes \<open>xs[i - w]\<close> once the window
  is full, adds \<open>xs[i]\<close>, and emits \<open>sum / nobs\<close> when at least \<open>min_periods\<close>
  observations are in the window (\<open>min_periods\<close> defaults to the window size), NaN
  otherwise. Infinite inputs are replaced by NaN beforehand. A series is given here by the
  list of its values; every operation of this section keeps the index of its input.
\<close>

fun inf_to_nan :: "fl \<Rightarrow> fl" where
  "inf_to_nan (Fin a) = Fin a"
| "inf_to_nan _ = NaN"

fun add_mean :: "fl \<Rightarrow> nat \<times> real \<Rightarrow> nat \<times> real" where
  "add_mean (Fin v) (nobs, sum_x) = (nobs + 1, sum_x + v)"
| "add_mean _ (nobs, sum_x) = (nobs, sum_x)"

fun remove_mean :: "fl \<Rightarrow> nat \<times> real \<Rightarrow> nat \<times> real" where
  "remove_mean (Fin v) (nobs, sum_x) = (nobs - 1, sum_x - v)"
| "remove_mean _ (nobs, sum_x) = (nobs, sum_x)"

fun calc_mean :: "nat \<Rightarrow> nat \<times> real \<Rightarrow> fl" where
  "calc_mean minp (nobs, sum_x) =
     (if minp \<le> nobs \<and> 0 < nobs then Fin (sum_x / real nobs) else NaN)"

definition roll_step :: "nat \<Rightarrow> fl list \<Rightarrow> nat \<Rightarrow> nat \<times> real \<Rightarrow> nat \<times> real" where
  "roll_step w xs i st =
     add_mean (xs ! i) (if w \<le> i then remove_mean (xs ! (i - w)) st else st)"

function roll_mean_loop :: "nat \<Rightarrow> fl list \<Rightarrow> nat \<Rightarrow> nat \<times> real \<Rightarrow> fl list" where
  "roll_mean_loop w xs i st =
     (if i < length xs then
        (let st' = roll_step w xs i st
         in calc_mean w st' # roll_mean_loop w xs (i + 1) st')
      else [])"
  by pat_completeness auto
termination
  by (relation "measure (\<lambda>(w, xs, i, st). length xs - i)") auto

declare roll_mean_loop.simps [simp del]

text \<open>A window of size zero holds no observation at any row.\<close>

definition rolling_mean :: "nat \<Rightarrow> fl list \<Rightarrow> fl list" where
  "rolling_mean w xs =
     (if w = 0 then map (\<lambda>_. NaN) xs else roll_mean_loop w (map inf_to_nan xs) 0 (0, 0))"

text \<open>
  \<open>rolling(window).std()\<close> is the sample standard deviation (one degree of freedom
  removed) of the window's values, NaN unless the window holds \<open>window\<close> observations
  and more than one.
\<close>

fun fin_val :: "fl \<Rightarrow> real option" where
  "fin_val (Fin a) = Some a"
| "fin_val _ = None"

definition window_at :: "nat \<Rightarrow> fl list \<Rightarrow> nat \<Rightarrow> real list option" where
  "window_at w xs i =
     (if w \<le> i + 1 then those (map fin_val (take w (drop (i + 1 - w) xs))) else None)"

definition sample_std :: "real list \<Rightarrow> fl" where
  "sample_std ws =
     (if length ws < 2 then NaN
      else (let m = sum_list ws / real (length ws)
            in Fin (sqrt (sum_list (map (\<lambda>x. (x - m)\<^sup>2) ws) / (real (length ws) - 1)))))"

definition rolling_std :: "nat \<Rightarrow> fl list \<Rightarrow> fl list" where
  "rolling_std w xs =
     map (\<lambda>i. case window_at w xs i of None \<Rightarrow> NaN | Some ws \<Rightarrow> sample_std ws) [0..<length xs]"

text \<open>pandas rejects a negative window with ValueError.\<close>

definition rolling :: "int \<Rightarrow> (nat \<Rightarrow> fl list \<Rightarrow> fl list) \<Rightarrow> fl list \<Rightarrow> error + fl list" where
  "rolling window agg xs = (if window < 0 then Inl ValueError else Inr (agg (nat window) xs))"

text \<open>\<open>calculate_SMA(data, window)\<close> is \<open>data.rolling(window=window).mean()\<close>.\<close>

definition calculate_SMA :: "fl list \<Rightarrow> int \<Rightarrow> error + fl list" where
  "calculate_SMA data window = rolling window rolling_mean data"

text \<open>Elementwise arithmetic of two series over the same rows, and by a scalar.\<close>

definition series_add :: "fl list \<Rightarrow> fl list \<Rightarrow> fl list" where
  "series_add a b = map2 fadd a b"

definition series_sub :: "fl list \<Rightarrow> fl list \<Rightarrow> fl list" where
  "series_sub a b = map2 fsub a b"

definition series_gt :: "fl list \<Rightarrow> fl list \<Rightarrow> bool list" where
  "series_gt a b = map2 fgt a b"

definition scalar_mul :: "fl \<Rightarrow> fl list \<Rightarrow> fl list" where
  "scalar_mul c a = map (fmul c) a"

definition calculate_bollinger_bands :: "fl list \<Rightarrow> int \<Rightarrow> error + (fl list \<times> fl list)" where
  "calculate_bollinger_bands data window =
     bindE (rolling window rolling_mean data) (\<lambda>rolling_mean_s.
     bindE (rolling window rolling_std data) (\<lambda>std.
       (let upper_band = series_add rolling_mean_s (scalar_mul (Fin 2) std);
            lower_band = series_sub rolling_mean_s (scalar_mul (Fin 2) std)
        in Inr (upper_band, lower_band))))"

section \<open>Exponentially weighted mean (pandas \<open>ewm(alpha, min_periods).mean()\<close>)\<close>

text \<open>
  With the defaults \<open>adjust=True\<close> and \<open>ignore_na=False\<close> pandas keeps the running
  weighted mean \<open>weighted\<close> and the total weight \<open>old_wt\<close> of the rows seen: every row
  decays \<open>old_wt\<close> by \<open>1 - alpha\<close>, an observation enters with weight 1, and the output
  is NaN until \<open>min_periods\<close> observations have been seen. pandas raises ValueError
  unless \<open>0 < alpha \<le> 1\<close>, uses at least 1 for \<open>min_periods\<close>, and replaces
  infinite inputs by NaN beforehand, as it does for a rolling window.
\<close>

fun ewm_loop :: "real \<Rightarrow> nat \<Rightarrow> fl \<Rightarrow> real \<Rightarrow> nat \<Rightarrow> fl list \<Rightarrow> fl list" where
  "ewm_loop alpha minp weighted old_wt nobs [] = []"
| "ewm_loop alpha minp weighted old_wt nobs (cur # rest) =
     (let nobs' = (if is_obs cur then nobs + 1 else nobs);
          decayed = old_wt * (1 - alpha);
          weighted' =
            (if is_obs weighted then
               (if is_obs cur \<and> weighted \<noteq> cur
                then fdiv (fadd (fmul (Fin decayed) weighted) cur) (Fin (decayed + 1))
                else weighted)
             else cur);
          old_wt' =
            (if is_obs weighted then (if is_obs cur then decayed + 1 else decayed)
             else old_wt)
      in (if minp \<le> nobs' then weighted' else NaN)
         # ewm_loop alpha minp weighted' old_wt' nobs' rest)"

definition ewm_mean :: "real \<Rightarrow> int \<Rightarrow> fl list \<Rightarrow> error + fl list" where
  "ewm_mean alpha min_periods xs =
     (if alpha \<le> 0 \<or> 1 < alpha then Inl ValueError
      else Inr (ewm_loop alpha (max (nat min_periods) 1) NaN 1 0 (map inf_to_nan xs)))"

definition calculate_EMA :: "fl list \<Rightarrow> int \<Rightarrow> error + fl list" where
  "calculate_EMA data window =
     bindE (py_div 2 (real_of_int window + 1)) (\<lambda>alpha. ewm_mean alpha window data)"

text \<open>\<open>calculate_MACD\<close> of the third notebook cell, built on \<open>calculate_EMA\<close>.\<close>

definition calculate_MACD :: "fl list \<Rightarrow> int \<Rightarrow> int \<Rightarrow> int \<Rightarrow> error + (fl list \<times> fl list)" where
  "calculate_MACD data slow_ema_window fast_ema_window signal_ema_window =
     bindE (calculate_EMA data fast_ema_window) (\<lambda>fast_ema.
     bindE (calculate_EMA data slow_ema_window) (\<lambda>slow_ema.
       (let macd = series_sub fast_ema slow_ema
        in bindE (calculate_EMA macd signal_ema_window) (\<lambda>signal_line.
             Inr (macd, signal_line)))))"

text \<open>\<open>calculate_MACD\<close> of the second notebook cell, which calls \<open>ewm\<close> itself with
  \<open>alpha=1/window\<close>.\<close>

definition calculate_MACD_cell2 ::
  "fl list \<Rightarrow> int \<Rightarrow> int \<Rightarrow> int \<Rightarrow> error + (fl list \<times> fl list)" where
  "calculate_MACD_cell2 data slow_ema_window fast_ema_window signal_ema_window =
     bindE (py_div 1 (real_of_int fast_ema_window)) (\<lambda>fast_alpha.
     bindE (ewm_mean fast_alpha fast_ema_window data) (\<lambda>fast_ema.
     bindE (py_div 1 (real_of_int slow_ema_window)) (\<lambda>slow_alpha.
     bindE (ewm_mean slow_alpha slow_ema_window data) (\<lambda>slow_ema.
       (let macd = series_sub fast_ema slow_ema
        in bindE (py_div 1 (real_of_int signal_ema_window)) (\<lambda>signal_alpha.
           bindE (ewm_mean signal_alpha signal_ema_window macd) (\<lambda>signal_line.
             Inr (macd, signal_line))))))))"

section \<open>Relative strength index\<close>

text \<open>
  \<open>calculate_RSI\<close> selects rows of the difference series with a boolean mask, so its
  intermediate series keep only some of the rows. Such a series is the list of its
  (row, value) pairs, a row being named by its position in the price series, which stands
  for its label (the labels of an index are distinct). Arithmetic of two series aligns
  them on the union of their rows and fills the rows a side lacks with NaN.
\<close>

type_synonym series = "(nat \<times> fl) list"

definition with_index :: "fl list \<Rightarrow> series" where
  "with_index xs = zip [0..<length xs] xs"

definition diff :: "fl list \<Rightarrow> fl list" where
  "diff xs = map (\<lambda>i. if i = 0 then NaN else fsub (xs ! i) (xs ! (i - 1))) [0..<length xs]"

fun fabs :: "fl \<Rightarrow> fl" where
  "fabs NaN = NaN"
| "fabs (Fin a) = Fin \<bar>a\<bar>"
| "fabs PInf = PInf"
| "fabs NInf = PInf"

definition series_get :: "series \<Rightarrow> nat \<Rightarrow> fl" where
  "series_get s l = (case map_of s l of None \<Rightarrow> NaN | Some v \<Rightarrow> v)"

fun index_union :: "nat list \<Rightarrow> nat list \<Rightarrow> nat list" where
  "index_union [] bs = bs"
| "index_union as [] = as"
| "index_union (a # as) (b # bs) =
     (if a = b then a # index_union as bs
      else if a < b then a # index_union as (b # bs)
      else b # index_union (a # as) bs)"

definition series_div :: "series \<Rightarrow> series \<Rightarrow> series" where
  "series_div s t =
     map (\<lambda>l. (l, fdiv (series_get s l) (series_get t l))) (index_union (map fst s) (map fst t))"

definition series_ewm :: "real \<Rightarrow> int \<Rightarrow> series \<Rightarrow> error + series" where
  "series_ewm alpha min_periods s =
     bindE (ewm_mean alpha min_periods (map snd s)) (\<lambda>ys. Inr (zip (map fst s) ys))"

text \<open>The last two lines of \<open>calculate_RSI\<close>: \<open>RS\<close> is the quotient of the mean gain
  and the mean loss, and \<open>RSI = 100 - 100 / (1 + RS)\<close>.\<close>

definition rsi_from_means :: "series \<Rightarrow> series \<Rightarrow> series" where
  "rsi_from_means up_mean down_mean =
     (let rs = series_div up_mean down_mean
      in map (\<lambda>(l, v). (l, fsub (Fin 100) (fdiv (Fin 100) (fadd (Fin 1) v)))) rs)"

definition calculate_RSI :: "fl list \<Rightarrow> int \<Rightarrow> error + series" where
  "calculate_RSI data window =
     (let delta = with_index (diff data);
          up = filter (\<lambda>(l, v). fgt v (Fin 0)) delta;
          down = map (\<lambda>(l, v). (l, fabs v)) (filter (\<lambda>(l, v). flt v (Fin 0)) delta)
      in bindE (py_div 1 (real_of_int window)) (\<lambda>up_alpha.
         bindE (series_ewm up_alpha window up) (\<lambda>up_mean.
         bindE (py_div 1 (real_of_int window)) (\<lambda>down_alpha.
         bindE (series_ewm down_alpha window down) (\<lambda>down_mean.
           Inr (rsi_from_means up_mean down_mean))))))"

section \<open>Feature tables and labels\<close>

text \<open>
  A price series and a table carry an index, the labels of their rows: integers (the
  default index \<open>0, 1, ...\<close>) or dates (what the download returns). The labels of an
  index are distinct. The indicators above keep the index of their input and are modelled
  on the values alone.
\<close>

datatype rowlabel = IntLabel int | DateLabel nat

record pseries =
  series_index :: "rowlabel list"
  series_values :: "fl list"

text \<open>
  The feature table of the second cell has eight columns; the third cell adds
  \<open>EMA_12\<close> and \<open>EMA_crossover\<close>. The first column assigned to the empty table
  gives the table its index; assigning a further series aligns it to the table's rows: a
  row the series lacks holds NaN.
\<close>

record features2 =
  table_index :: "rowlabel list"
  SMA_20 :: "fl list"
  RSI_14 :: "fl list"
  MACD :: "fl list"
  MACD_signal :: "fl list"
  BB_upper :: "fl list"
  BB_lower :: "fl list"
  RSI_momentum :: "fl list"
  BB_width :: "fl list"

record features = features2 +
  EMA_12 :: "fl list"
  EMA_crossover :: "bool list"

definition reindex :: "nat \<Rightarrow> series \<Rightarrow> fl list" where
  "reindex n s = map (series_get s) [0..<n]"

definition create_features :: "pseries \<Rightarrow> error + features" where
  "create_features data =
     bindE (calculate_SMA (series_values data) 20) (\<lambda>sma_20.
     bindE (calculate_EMA (series_values data) 12) (\<lambda>ema_12.
     bindE (calculate_MACD (series_values data) 26 12 9) (\<lambda>(macd, macd_signal).
     bindE (calculate_RSI (series_values data) 14) (\<lambda>rsi.
     bindE (calculate_bollinger_bands (series_values data) 20) (\<lambda>(bb_upper, bb_lower).
       (let rsi_14 = reindex (length sma_20) rsi
        in Inr \<lparr>table_index = series_index data,
                SMA_20 = sma_20, RSI_14 = rsi_14, MACD = macd, MACD_signal = macd_signal,
                BB_upper = bb_upper, BB_lower = bb_lower, RSI_momentum = diff rsi_14,
                BB_width = series_sub bb_upper bb_lower,
                EMA_12 = ema_12, EMA_crossover = series_gt ema_12 sma_20\<rparr>))))))"

text \<open>
  \<open>features.loc[i, column]\<close> with a Python integer \<open>i\<close> looks the label \<open>i\<close> up in
  the table's index and reads the column at the row found; it raises KeyError when the
  index has no such label, as with an index of dates.
\<close>

fun index_of :: "'a \<Rightarrow> 'a list \<Rightarrow> nat option" where
  "index_of x [] = None"
| "index_of x (y # ys) = (if x = y then Some 0 else map_option Suc (index_of x ys))"

definition loc :: "rowlabel list \<Rightarrow> 'a list \<Rightarrow> nat \<Rightarrow> error + 'a" where
  "loc idx col i =
     (case index_of (IntLabel (int i)) idx of
        None \<Rightarrow> Inl KeyError
      | Some p \<Rightarrow> if p < length col then Inr (col ! p) else Inl KeyError)"

text \<open>Python's \<open>and\<close> evaluates its right operand only when the left one is true.\<close>

definition py_and :: "bool \<Rightarrow> error + bool \<Rightarrow> error + bool" where
  "py_and c m = (if c then m else Inr False)"

text \<open>\<open>pd.Series(values, index=index)\<close> raises ValueError unless there is one value
  per row of the index.\<close>

definition pd_Series :: "'a list \<Rightarrow> rowlabel list \<Rightarrow> error + 'a list" where
  "pd_Series vals idx = (if length vals = length idx then Inr vals else Inl ValueError)"

text \<open>\<open>define_target\<close> of the third cell: the loop labels every row, then the series
  is built.\<close>

fun define_target_loop :: "features \<Rightarrow> nat list \<Rightarrow> label list \<Rightarrow> error + label list" where
  "define_target_loop features [] targets = Inr targets"
| "define_target_loop features (i # rest) targets =
     bindE (loc (table_index features) (EMA_crossover features) i) (\<lambda>crossover.
     bindE (py_and crossover
              (bindE (loc (table_index features) (RSI_14 features) i)
                 (\<lambda>rsi. Inr (flt rsi (Fin 30))))) (\<lambda>buy.
       if buy then define_target_loop features rest (targets @ [Buy])
       else
         bindE (py_and (\<not> crossover)
                  (bindE (loc (table_index features) (RSI_14 features) i)
                     (\<lambda>rsi. Inr (fgt rsi (Fin 70))))) (\<lambda>sell.
           if sell then define_target_loop features rest (targets @ [Sell])
           else define_target_loop features rest (targets @ [Hold]))))"

definition define_target :: "pseries \<Rightarrow> features \<Rightarrow> error + label list" where
  "define_target data features =
     bindE (define_target_loop features [0..<length (series_values data)] []) (\<lambda>targets.
       pd_Series targets (series_index data))"

text \<open>
  \<open>define_target\<close> of the second cell: the \<open>return\<close> is inside the loop body, so the
  first iteration builds the series from the labels appended so far. With no row the loop
  body never runs and the function returns None. \<open>data.iloc[i]\<close> reads by position.
\<close>

fun define_target_cell2_loop ::
  "pseries \<Rightarrow> features2 \<Rightarrow> nat list \<Rightarrow> label list \<Rightarrow> error + label list option" where
  "define_target_cell2_loop data features [] targets = Inr None"
| "define_target_cell2_loop data features (i # rest) targets =
     bindE (loc (table_index features) (RSI_14 features) i) (\<lambda>rsi.
     bindE (py_and (flt rsi (Fin 30))
              (bindE (loc (table_index features) (SMA_20 features) i)
                 (\<lambda>sma. Inr (fgt (series_values data ! i) sma)))) (\<lambda>buy.
     bindE (if buy then Inr (targets @ [Buy])
            else
              bindE (py_and (fgt rsi (Fin 70))
                       (bindE (loc (table_index features) (SMA_20 features) i)
                          (\<lambda>sma. Inr (flt (series_values data ! i) sma))))
                (\<lambda>sell. Inr (if sell then targets @ [Sell] else targets @ [Hold])))
       (\<lambda>targets'. bindE (pd_Series targets' (series_index data)) (\<lambda>s. Inr (Some s)))))"

definition define_target_cell2 :: "pseries \<Rightarrow> features2 \<Rightarrow> error + label list option" where
  "define_target_cell2 data features =
     define_target_cell2_loop data features [0..<length (series_values data)] []"

section \<open>The first notebook: a table of named columns\<close>

text \<open>
  The first notebook works on the downloaded table itself: it reads the \<open>Close\<close>
  column, adds \<open>SMA_20\<close> and \<open>Signal\<close>. A table maps a column name to its column,
  of numbers or of labels (strings); reading a missing column raises KeyError.
\<close>

datatype column = Floats "fl list" | Labels "label list"

type_synonym frame = "string \<Rightarrow> column option"

definition get_column :: "frame \<Rightarrow> string \<Rightarrow> error + column" where
  "get_column data name = (case data name of None \<Rightarrow> Inl KeyError | Some c \<Rightarrow> Inr c)"

text \<open>\<open>column.rolling(window=window).mean()\<close>: the window is checked when the rolling
  object is built; the mean of a column that is not numeric raises DataError.\<close>

definition rolling_column_mean :: "int \<Rightarrow> column \<Rightarrow> error + fl list" where
  "rolling_column_mean window c =
     (if window < 0 then Inl ValueError
      else (case c of Floats xs \<Rightarrow> Inr (rolling_mean (nat window) xs)
            | Labels _ \<Rightarrow> Inl DataError))"

definition calculate_SMA_Close :: "frame \<Rightarrow> int \<Rightarrow> error + fl list" where
  "calculate_SMA_Close data window =
     bindE (get_column data ''Close'') (\<lambda>close. rolling_column_mean window close)"

definition create_features_Close :: "frame \<Rightarrow> error + frame" where
  "create_features_Close data =
     bindE (calculate_SMA_Close data 20) (\<lambda>sma. Inr (data(''SMA_20'' \<mapsto> Floats sma)))"

text \<open>\<open>a > b\<close> on two columns of one table compares row by row: numbers as floats,
  strings in alphabetical order; a number against a string raises TypeError.\<close>

fun label_rank :: "label \<Rightarrow> nat" where
  "label_rank Buy = 0"
| "label_rank Hold = 1"
| "label_rank Sell = 2"

fun column_gt :: "column \<Rightarrow> column \<Rightarrow> error + bool list" where
  "column_gt (Floats a) (Floats b) = Inr (series_gt a b)"
| "column_gt (Labels a) (Labels b) = Inr (map2 (\<lambda>x y. label_rank y < label_rank x) a b)"
| "column_gt (Floats a) (Labels b) = (if a = [] \<or> b = [] then Inr [] else Inl TypeError)"
| "column_gt (Labels a) (Floats b) = (if a = [] \<or> b = [] then Inr [] else Inl TypeError)"

definition np_where :: "bool list \<Rightarrow> 'a \<Rightarrow> 'a \<Rightarrow> 'a list" where
  "np_where cond a b = map (\<lambda>c. if c then a else b) cond"

text \<open>\<open>trading_decision\<close> stores the signal in the table and returns it.\<close>

definition trading_decision :: "frame \<Rightarrow> error + (frame \<times> label list)" where
  "trading_decision data =
     bindE (get_column data ''Close'') (\<lambda>close.
     bindE (get_column data ''SMA_20'') (\<lambda>sma_20.
     bindE (column_gt close sma_20) (\<lambda>cond.
       (let signal = np_where cond Buy Sell
        in Inr (data(''Signal'' \<mapsto> Labels signal), signal)))))"

section \<open>Evaluation\<close>

text \<open>
  The scores handed to \<open>roc_auc_score\<close> are a vector (one number per sample) or a matrix
  (one row per sample, one column per class). \<open>roc_auc_score\<close> belongs to scikit-learn
  and is a parameter here, as is the fitted model, which is represented by the matrix
  \<open>predict_proba\<close> returns for the test rows.
\<close>

datatype scores = Vec "real list" | Mat "real list list"

definition column_at :: "real list list \<Rightarrow> nat \<Rightarrow> error + real list" where
  "column_at m j =
     (if list_all (\<lambda>row. j < length row) m then Inr (map (\<lambda>row. row ! j) m)
      else Inl IndexError)"

text \<open>The AUC step of \<open>build_model\<close>:
  \<open>roc_auc_score(y_test, model.predict_proba(X_test)[:, 1])\<close>.\<close>

definition build_model_auc ::
  "(label list \<Rightarrow> scores \<Rightarrow> error + real) \<Rightarrow> label list \<Rightarrow> real list list \<Rightarrow> error + real" where
  "build_model_auc roc_auc_score y_test predict_proba =
     bindE (column_at predict_proba 1) (\<lambda>s. roc_auc_score y_test (Vec s))"

text \<open>\<open>pd.get_dummies\<close> makes one indicator column for every label that occurs, in
  alphabetical order of the labels.\<close>

definition get_dummies :: "label list \<Rightarrow> label list \<times> real list list" where
  "get_dummies ys =
     (let cols = filter (\<lambda>c. c \<in> set ys) [Buy, Hold, Sell]
      in (cols, map (\<lambda>y. map (\<lambda>c. if y = c then 1 else 0) cols) ys))"

text \<open>The AUC step of \<open>evaluate\<close> in the first notebook:
  \<open>roc_auc_score(pd.get_dummies(y_true), pd.get_dummies(y_pred), ...)\<close>.\<close>

definition evaluate_auc ::
  "(label list \<times> real list list \<Rightarrow> label list \<times> real list list \<Rightarrow> error + real)
     \<Rightarrow> label list \<Rightarrow> label list \<Rightarrow> error + real" where
  "evaluate_auc roc_auc_score y_true y_pred =
     roc_auc_score (get_dummies y_true) (get_dummies y_pred)"

section \<open>The driver\<close>

text \<open>
  \<open>main\<close> downloads, builds features and labels, fits the model and then calls
  \<open>main\<close>. The download and the model fit are outside the notebook and are parameters;
  the download may answer differently at every call. Python ends a recursion deeper than
  the interpreter's limit with RecursionError.
\<close>

function main ::
  "(nat \<Rightarrow> error + pseries) \<Rightarrow> (features \<Rightarrow> label list \<Rightarrow> error + unit) \<Rightarrow> nat \<Rightarrow> nat
     \<Rightarrow> error + unit" where
  "main download_data build_model limit depth =
     (if limit \<le> depth then Inl RecursionError
      else
        bindE (download_data depth) (\<lambda>data.
        bindE (create_features data) (\<lambda>features.
        bindE (define_target data features) (\<lambda>target.
        bindE (build_model features target) (\<lambda>model.
          main download_data build_model limit (depth + 1))))))"
  by pat_completeness auto
termination
  by (relation "measure (\<lambda>(download_data, build_model, limit, depth). limit - depth)") auto

declare main.simps [simp del]

section \<open>Reference formulas\<close>

text \<open>The simple moving average as the specification words it: the arithmetic mean of the
  \<open>w\<close> most recent values at a row that has \<open>w\<close> values behind it, undefined
  before.\<close>

definition sma_at :: "nat \<Rightarrow> real list \<Rightarrow> nat \<Rightarrow> fl" where
  "sma_at w ps i =
     (if w \<le> i + 1 then Fin ((\<Sum>j = i + 1 - w..i. ps ! j) / real w) else NaN)"


text \<open>The labelling rule of the third cell on one row: Buy on a crossover with
  \<open>RSI < 30\<close>, Sell on no crossover with \<open>RSI > 70\<close>, Hold otherwise.\<close>

definition label_rule :: "bool \<Rightarrow> fl \<Rightarrow> label" where
  "label_rule crossover rsi =
     (if crossover \<and> flt rsi (Fin 30) then Buy
      else if \<not> crossover \<and> fgt rsi (Fin 70) then Sell else Hold)"



text \<open>
  Recursive smoothing as the specification words it: the new value is a function of the
  previous value and the new observation, \<open>y t = a * x t + (1 - a) * y (t - 1)\<close>, here
  started at the first observation.
\<close>

fun smooth_from :: "real \<Rightarrow> real \<Rightarrow> real list \<Rightarrow> real list" where
  "smooth_from a y [] = []"
| "smooth_from a y (x # xs) = (a * x + (1 - a) * y) # smooth_from a (a * x + (1 - a) * y) xs"

fun recursive_smoothing :: "real \<Rightarrow> real list \<Rightarrow> real list" where
  "recursive_smoothing a [] = []"
| "recursive_smoothing a (x # xs) = x # smooth_from a x xs"



text \<open>The default index of a series of \<open>n\<close> rows.\<close>

definition range_index :: "nat \<Rightarrow> rowlabel list" where
  "range_index n = map (\<lambda>i. IntLabel (int i)) [0..<n]"

text \<open>The series \<open>calculate_EMA\<close> returns for a window that pandas accepts.\<close>

definition ema :: "int \<Rightarrow> fl list \<Rightarrow> fl list" where
  "ema w xs =
     ewm_loop (2 / (real_of_int w + 1)) (max (nat w) 1) NaN 1 0 (map inf_to_nan xs)"

text \<open>The table \<open>create_features\<close> returns for a series with index \<open>idx\<close> and
  values \<open>d\<close>, column by column.\<close>

definition feature_table :: "rowlabel list \<Rightarrow> fl list \<Rightarrow> features" where
  "feature_table idx d =
     \<lparr>table_index = idx, SMA_20 = rolling_mean 20 d, RSI_14 = replicate (length d) NaN,
      MACD = series_sub (ema 12 d) (ema 26 d),
      MACD_signal = ema 9 (series_sub (ema 12 d) (ema 26 d)),
      BB_upper = series_add (rolling_mean 20 d) (scalar_mul (Fin 2) (rolling_std 20 d)),
      BB_lower = series_sub (rolling_mean 20 d) (scalar_mul (Fin 2) (rolling_std 20 d)),
      RSI_momentum = diff (replicate (length d) NaN),
      BB_width = series_sub
        (series_add (rolling_mean 20 d) (scalar_mul (Fin 2) (rolling_std 20 d)))
        (series_sub (rolling_mean 20 d) (scalar_mul (Fin 2) (rolling_std 20 d))),
      EMA_12 = ema 12 d, EMA_crossover = series_gt (ema 12 d) (rolling_mean 20 d)\<rparr>"

text \<open>Row \<open>i\<close> of a feature table, and the lengths of its columns.\<close>

definition feature_row ::
  "features \<Rightarrow> nat \<Rightarrow> (fl \<times> fl \<times> fl \<times> fl \<times> fl) \<times> (fl \<times> fl \<times> bool \<times> fl \<times> fl)" where
  "feature_row f i =
     ((SMA_20 f ! i, EMA_12 f ! i, MACD f ! i, MACD_signal f ! i, RSI_14 f ! i),
      (BB_upper f ! i, BB_lower f ! i, EMA_crossover f ! i, RSI_momentum f ! i, BB_width f ! i))"

definition column_lengths :: "features \<Rightarrow> nat list" where
  "column_lengths f =
     [length (SMA_20 f), length (EMA_12 f), length (MACD f), length (MACD_signal f),
      length (RSI_14 f), length (BB_upper f), length (BB_lower f), length (EMA_crossover f),
      length (RSI_momentum f), length (BB_width f)]"

section \<open>Basic facts\<close>

lemma bindE_simps [simp]:
  "bindE (Inl e) f = Inl e"
  "bindE (Inr x) f = f x"
  by (simp_all add: bindE_def)

lemma inf_to_nan_comp_Fin [simp]: "inf_to_nan \<circ> Fin = Fin"
  by (rule ext) simp

lemma inf_to_nan_Fin [simp]: "map inf_to_nan (map Fin ps) = map Fin ps"
  by (induction ps) simp_all

lemma inf_to_nan_replicate_Fin [simp]:
  "map inf_to_nan (replicate n (Fin c)) = replicate n (Fin c)"
  by simp

lemma index_of_nth: "distinct xs \<Longrightarrow> i < length xs \<Longrightarrow> index_of (xs ! i) xs = Some i"
proof (induction xs arbitrary: i)
  case Nil
  then show ?case by simp
next
  case (Cons x xs)
  show ?case
  proof (cases i)
    case 0
    then show ?thesis by simp
  next
    case (Suc j)
    with Cons.prems have "xs ! j \<in> set xs" "x \<notin> set xs" by simp_all
    then have "xs ! j \<noteq> x" by blast
    with Cons.IH [of j] Cons.prems Suc show ?thesis by simp
  qed
qed

lemma index_of_range_index:
  "i < n \<Longrightarrow> index_of (IntLabel (int i)) (range_index n) = Some i"
proof -
  assume i: "i < n"
  have "distinct (range_index n)"
    by (simp add: range_index_def distinct_map inj_on_def)
  from index_of_nth [OF this, of i] i show ?thesis
    by (simp add: range_index_def)
qed

lemma index_of_dates: "index_of (IntLabel k) (map DateLabel ds) = None"
  by (induction ds) simp_all

lemma loc_range_index:
  "i < n \<Longrightarrow> i < length col \<Longrightarrow> loc (range_index n) col i = Inr (col ! i)"
  by (simp add: loc_def index_of_range_index)

lemma loc_dates: "loc (map DateLabel ds) col i = Inl KeyError"
  by (simp add: loc_def index_of_dates)

lemma length_roll_mean_loop: "length (roll_mean_loop w xs i st) = length xs - i"
proof (induction w xs i st rule: roll_mean_loop.induct)
  case (1 w xs i st)
  show ?case
  proof (cases "i < length xs")
    case True
    with "1.IH" [OF True refl] show ?thesis
      by (subst roll_mean_loop.simps) (simp add: Let_def)
  next
    case False
    then show ?thesis by (subst roll_mean_loop.simps) simp
  qed
qed

lemma length_rolling_mean [simp]: "length (rolling_mean w xs) = length xs"
  by (simp add: rolling_mean_def length_roll_mean_loop)

lemma length_rolling_std [simp]: "length (rolling_std w xs) = length xs"
  by (simp add: rolling_std_def)

lemma length_ewm_loop [simp]: "length (ewm_loop a m wgt ow k xs) = length xs"
  by (induction xs arbitrary: wgt ow k) (simp_all add: Let_def)

lemma length_diff [simp]: "length (diff xs) = length xs"
  by (simp add: diff_def)

lemma length_series [simp]:
  "length (series_sub a b) = min (length a) (length b)"
  "length (series_add a b) = min (length a) (length b)"
  "length (series_gt a b) = min (length a) (length b)"
  "length (scalar_mul c a) = length a"
  by (simp_all add: series_sub_def series_add_def series_gt_def scalar_mul_def)

section \<open>The rolling mean is the mean of the window\<close>

lemma roll_step_Fin:
  assumes "0 < w" "i < length ps"
  shows "roll_step w (map Fin ps) i (min i w, \<Sum>j = i - min i w..<i. ps ! j)
       = (min (i + 1) w, \<Sum>j = (i + 1) - min (i + 1) w..<i + 1. ps ! j)"
proof (cases "w \<le> i")
  case True
  then have m: "min i w = w" "min (i + 1) w = w" by simp_all
  have iw: "i - w < length ps" using assms by simp
  have "(\<Sum>j = i - w..<i. ps ! j) = ps ! (i - w) + (\<Sum>j = i + 1 - w..<i. ps ! j)"
    using True assms(1) by (simp add: sum.atLeast_Suc_lessThan Suc_diff_le)
  moreover have "\<not> i < Suc i - w" using assms(1) by arith
  ultimately show ?thesis
    using True assms iw by (simp add: roll_step_def m)
next
  case False
  then have m: "min i w = i" "min (i + 1) w = i + 1" by simp_all
  show ?thesis using False assms by (simp add: roll_step_def m)
qed

lemma roll_mean_loop_closed:
  assumes "0 < w"
  shows "i \<le> length ps \<Longrightarrow>
     roll_mean_loop w (map Fin ps) i (min i w, \<Sum>j = i - min i w..<i. ps ! j)
       = map (sma_at w ps) [i..<length ps]"
proof (induction "length ps - i" arbitrary: i)
  case 0
  then show ?case by (subst roll_mean_loop.simps) simp
next
  case (Suc n)
  then have lt: "i < length ps" by simp
  have step: "roll_step w (map Fin ps) i (min i w, \<Sum>j = i - min i w..<i. ps ! j)
       = (min (i + 1) w, \<Sum>j = (i + 1) - min (i + 1) w..<i + 1. ps ! j)"
    by (rule roll_step_Fin [OF assms lt])
  have ih: "roll_mean_loop w (map Fin ps) (i + 1)
       (min (i + 1) w, \<Sum>j = (i + 1) - min (i + 1) w..<i + 1. ps ! j)
       = map (sma_at w ps) [i + 1..<length ps]"
    using Suc.hyps(1) [of "i + 1"] Suc.hyps(2) lt by simp
  have hd: "calc_mean w (min (i + 1) w, \<Sum>j = (i + 1) - min (i + 1) w..<i + 1. ps ! j)
       = sma_at w ps i"
  proof (cases "w \<le> i + 1")
    case True
    then have "min (i + 1) w = w" by simp
    moreover have "{i + 1 - w..<i + 1} = {i + 1 - w..i}" by auto
    ultimately show ?thesis using True assms by (simp add: sma_at_def)
  next
    case False
    then show ?thesis by (simp add: sma_at_def)
  qed
  show ?case
    using lt step ih hd by (subst roll_mean_loop.simps) (simp add: upt_conv_Cons Let_def)
qed

lemma rolling_mean_Fin:
  "0 < w \<Longrightarrow> rolling_mean w (map Fin ps) = map (sma_at w ps) [0..<length ps]"
  using roll_mean_loop_closed [of w 0 ps] by (simp add: rolling_mean_def comp_def)

text \<open>
  C2. For a window \<open>w \<ge> 1\<close> and a price series \<open>ps\<close>, \<open>calculate_SMA\<close> returns a
  series of the length of \<open>ps\<close>; its value at row \<open>i\<close> is the arithmetic mean of
  \<open>ps[i - w + 1], ..., ps[i]\<close> when \<open>i \<ge> w - 1\<close> and NaN at every earlier row. The
  first notebook's variant, which reads the \<open>Close\<close> column of a table, returns the same
  series.
\<close>

theorem calculate_SMA_is_window_mean:
  assumes "0 < w"
  shows "\<exists>ys. calculate_SMA (map Fin ps) w = Inr ys \<and> length ys = length ps \<and>
     (\<forall>i < length ps. ys ! i =
        (if nat w \<le> i + 1
         then Fin ((\<Sum>j = i + 1 - nat w..i. ps ! j) / real_of_int w) else NaN)) \<and>
     (\<forall>data. data ''Close'' = Some (Floats (map Fin ps)) \<longrightarrow>
        calculate_SMA_Close data w = Inr ys)"
  using assms
  by (simp add: calculate_SMA_def calculate_SMA_Close_def get_column_def
      rolling_column_mean_def rolling_def rolling_mean_Fin sma_at_def)

theorem calculate_SMA_is_window_mean_witness:
  "(0::int) < 2 \<and> calculate_SMA (map Fin [1, 2, 3, 5]) 2 = Inr [NaN, Fin (3 / 2), Fin (5 / 2), Fin 4]
   \<and> calculate_SMA_Close [''Close'' \<mapsto> Floats (map Fin [1, 2, 3, 5])] 2
       = Inr [NaN, Fin (3 / 2), Fin (5 / 2), Fin 4]"
proof -
  have w: "(0::int) < 2" by simp
  from calculate_SMA_is_window_mean [OF w, of "[1, 2, 3, 5]"]
  obtain ys where r: "calculate_SMA (map Fin [1, 2, 3, 5]) 2 = Inr ys"
    and len: "length ys = length [1, 2, 3, 5 :: real]"
    and all: "\<forall>i < length [1, 2, 3, 5 :: real]. ys ! i =
        (if nat 2 \<le> i + 1
         then Fin ((\<Sum>j = i + 1 - nat 2..i. [1, 2, 3, 5] ! j) / real_of_int 2) else NaN)"
    and fr: "\<forall>data. data ''Close'' = Some (Floats (map Fin [1, 2, 3, 5])) \<longrightarrow>
        calculate_SMA_Close data 2 = Inr ys"
    by blast
  have s1: "{Suc 0..Suc (Suc 0)} = {Suc 0, Suc (Suc 0)}"
    and s2: "{Suc (Suc 0)..Suc (Suc (Suc 0))} = {Suc (Suc 0), Suc (Suc (Suc 0))}"
    and s0: "{0..Suc 0} = {0, Suc 0}"
    by auto
  have "ys ! 0 = NaN" "ys ! 1 = Fin (3 / 2)" "ys ! 2 = Fin (5 / 2)" "ys ! 3 = Fin 4"
    using all by (simp_all add: numeral_2_eq_2 numeral_3_eq_3 s0 s1 s2)
  then have ys: "ys = [NaN, Fin (3 / 2), Fin (5 / 2), Fin 4]"
    using len by (auto simp: list_eq_iff_nth_eq less_Suc_eq numeral_2_eq_2 numeral_3_eq_3)
  have "calculate_SMA_Close [''Close'' \<mapsto> Floats (map Fin [1, 2, 3, 5])] 2 = Inr ys"
    using fr by simp
  with r ys w show ?thesis by simp
qed

lemma calculate_SMA_small_window:
  "w < 0 \<Longrightarrow> calculate_SMA xs w = Inl ValueError"
  "calculate_SMA xs 0 = Inr (map (\<lambda>_. NaN) xs)"
  by (simp_all add: calculate_SMA_def rolling_def rolling_mean_def)


section \<open>The signal of the first notebook\<close>

text \<open>
  C9. For a table with numeric \<open>Close\<close> and \<open>SMA_20\<close> columns over the same rows,
  \<open>trading_decision\<close> labels every row: Buy where \<open>Close > SMA_20\<close>, Sell at every
  other row (also where \<open>SMA_20\<close> is NaN). Hold is never produced.
\<close>

theorem trading_decision_buy_or_sell:
  assumes "data ''Close'' = Some (Floats close)"
    and "data ''SMA_20'' = Some (Floats sma)"
    and "length close = length sma"
  shows "\<exists>data' signal. trading_decision data = Inr (data', signal) \<and>
     length signal = length close \<and>
     (\<forall>i < length close. signal ! i = (if fgt (close ! i) (sma ! i) then Buy else Sell)) \<and>
     Hold \<notin> set signal"
  using assms
  by (auto simp: trading_decision_def get_column_def np_where_def series_gt_def Let_def)

theorem trading_decision_buy_or_sell_witness:
  "\<exists>data' signal.
     trading_decision
       [''Close'' \<mapsto> Floats [Fin 5, Fin 1, Fin 2], ''SMA_20'' \<mapsto> Floats [NaN, Fin 3, Fin 1]]
       = Inr (data', signal) \<and> signal = [Sell, Sell, Buy]"
proof -
  let ?c = "[Fin 5, Fin 1, Fin 2]"
  let ?s = "[NaN, Fin 3, Fin 1]"
  let ?d = "[''Close'' \<mapsto> Floats ?c, ''SMA_20'' \<mapsto> Floats ?s]"
  have c: "?d ''Close'' = Some (Floats ?c)" by simp
  have s: "?d ''SMA_20'' = Some (Floats ?s)" by simp
  have l: "length ?c = length ?s" by simp
  from trading_decision_buy_or_sell [OF c s l]
  obtain data' signal where r: "trading_decision ?d = Inr (data', signal)"
    and len: "length signal = length ?c"
    and all: "\<forall>i < length ?c. signal ! i = (if fgt (?c ! i) (?s ! i) then Buy else Sell)"
    by blast
  have "signal ! 0 = Sell" "signal ! 1 = Sell" "signal ! 2 = Buy"
    using all by (simp_all add: fgt_def)
  then have "signal = [Sell, Sell, Buy]"
    using len by (auto simp: list_eq_iff_nth_eq less_Suc_eq numeral_2_eq_2)
  with r show ?thesis by blast
qed

section \<open>The driver never returns\<close>

text \<open>
  C10. The last statement of \<open>main\<close> is an unguarded call of \<open>main\<close>: whatever the
  download and the model fit do, and whatever the recursion limit, a call of \<open>main\<close>
  ends with an exception (of one of its steps, or RecursionError) and never returns
  normally.
\<close>

theorem main_never_returns_normally:
  "\<exists>e. main download_data build_model limit depth = Inl e"
proof (induction download_data build_model limit depth rule: main.induct)
  case (1 download_data build_model limit depth)
  show ?case
  proof (cases "limit \<le> depth")
    case True
    then show ?thesis by (subst main.simps) simp
  next
    case False
    note ih = "1.IH" [OF False]
    show ?thesis
      apply (subst main.simps)
      using False ih
      by (auto simp: bindE_def split: sum.splits)
  qed
qed

section \<open>Exponential moving averages\<close>

lemma calculate_EMA_ema: "0 < w \<Longrightarrow> calculate_EMA xs w = Inr (ema w xs)"
proof -
  assume w: "0 < w"
  then have "1 \<le> real_of_int w" by simp
  then have "2 / (real_of_int w + 1) \<le> 1" "0 < 2 / (real_of_int w + 1)" "real_of_int w + 1 \<noteq> 0"
    by (simp_all add: field_simps)
  then show ?thesis
    by (simp add: calculate_EMA_def py_div_def ewm_mean_def ema_def not_le [symmetric])
qed










lemma calculate_EMA_infinite_input:
  "calculate_EMA [Fin 1, PInf, Fin 3] 1 = Inr [Fin 1, Fin 1, Fin 3]"
  by (simp add: calculate_EMA_def py_div_def ewm_mean_def is_obs_def Let_def)

lemma calculate_MACD_composed:
  assumes "0 < slow" and "0 < fast" and "0 < signal"
  shows "calculate_MACD data slow fast signal
    = Inr (series_sub (ema fast data) (ema slow data),
           ema signal (series_sub (ema fast data) (ema slow data)))"
  using assms by (simp add: calculate_MACD_def calculate_EMA_ema Let_def)




text \<open>
  The second cell's \<open>calculate_MACD\<close> calls \<open>ewm\<close> with \<open>alpha = 1 / window\<close>. For
  the prices 0, 3, 3 and the windows slow = 2, fast = 1, signal = 1 its MACD at the last
  row is 3/7; the third cell's function, with \<open>alpha = 2 / (window + 1)\<close>, gives 3/13,
  and the recursion with \<open>alpha = 2 / (window + 1)\<close> gives \<open>3 - 8/3 = 1/3\<close>.
\<close>

lemma calculate_MACD_cell2_alpha:
  "calculate_MACD_cell2 [Fin 0, Fin 3, Fin 3] 2 1 1
     = Inr ([NaN, Fin 1, Fin (3 / 7)], [NaN, Fin 1, Fin (3 / 7)])"
  "calculate_MACD [Fin 0, Fin 3, Fin 3] 2 1 1
     = Inr ([NaN, Fin (3 / 4), Fin (3 / 13)], [NaN, Fin (3 / 4), Fin (3 / 13)])"
  "recursive_smoothing (2 / (1 + 1)) [0, 3, 3] = [0, 3, 3]"
  "recursive_smoothing (2 / (2 + 1)) [0, 3, 3] = [0, 2, 8 / 3]"
  by (simp_all add: calculate_MACD_cell2_def calculate_MACD_def calculate_EMA_def py_div_def
      ewm_mean_def is_obs_def Let_def series_sub_def fsub_def)

section \<open>Constant and increasing series\<close>

lemma ewm_loop_constant:
  assumes "wgt = NaN \<or> wgt = Fin c"
  shows "ewm_loop a m wgt ow k (replicate n (Fin c))
    = map (\<lambda>i. if m \<le> k + i + 1 then Fin c else NaN) [0..<n]"
  using assms
proof (induction n arbitrary: wgt ow k)
  case 0
  then show ?case by simp
next
  case (Suc n)
  have step: "ewm_loop a m wgt ow k (Fin c # replicate n (Fin c))
      = (if m \<le> k + 1 then Fin c else NaN)
        # map (\<lambda>i. if m \<le> Suc k + i + 1 then Fin c else NaN) [0..<n]"
    using Suc.prems by (auto simp: is_obs_def Let_def Suc.IH)
  show ?case
    unfolding replicate_Suc step by (simp add: map_upt_Suc del: upt_Suc)
qed

lemma sma_at_constant:
  assumes "i < n" and "0 < w"
  shows "sma_at w (replicate n c) i = (if w \<le> i + 1 then Fin c else NaN)"
proof (cases "w \<le> i + 1")
  case True
  have "(\<Sum>j = i + 1 - w..i. replicate n c ! j) = (\<Sum>j = i + 1 - w..i. c)"
    using assms(1) by (intro sum.cong) simp_all
  also have "\<dots> = real w * c" using True by simp
  finally show ?thesis using True assms(2) by (simp add: sma_at_def)
next
  case False
  then show ?thesis by (simp add: sma_at_def)
qed

text \<open>
  C7, as amended. For a constant price series and a window \<open>w \<ge> 1\<close>, every defined
  value of \<open>calculate_SMA\<close> and of \<open>calculate_EMA\<close> is that constant: the value at
  row \<open>i\<close> is the constant when \<open>i \<ge> w - 1\<close> and NaN before.
\<close>

theorem constant_series_SMA_EMA:
  assumes "0 < w"
  shows "calculate_SMA (replicate n (Fin c)) w
      = Inr (map (\<lambda>i. if nat w \<le> i + 1 then Fin c else NaN) [0..<n]) \<and>
    calculate_EMA (replicate n (Fin c)) w
      = Inr (map (\<lambda>i. if nat w \<le> i + 1 then Fin c else NaN) [0..<n])"
proof
  have "rolling_mean (nat w) (map Fin (replicate n c))
      = map (sma_at (nat w) (replicate n c)) [0..<length (replicate n c)]"
    using assms by (intro rolling_mean_Fin) simp
  also have "\<dots> = map (\<lambda>i. if nat w \<le> i + 1 then Fin c else NaN) [0..<n]"
    using assms by (simp add: sma_at_constant)
  finally show "calculate_SMA (replicate n (Fin c)) w
      = Inr (map (\<lambda>i. if nat w \<le> i + 1 then Fin c else NaN) [0..<n])"
    using assms by (simp add: calculate_SMA_def rolling_def)
next
  have "max (nat w) 1 = nat w" using assms by simp
  then show "calculate_EMA (replicate n (Fin c)) w
      = Inr (map (\<lambda>i. if nat w \<le> i + 1 then Fin c else NaN) [0..<n])"
    using assms by (simp add: calculate_EMA_ema ema_def ewm_loop_constant)
qed

theorem constant_series_SMA_EMA_witness:
  "(0::int) < 2 \<and>
   calculate_SMA (replicate 3 (Fin 7)) 2 = Inr [NaN, Fin 7, Fin 7] \<and>
   calculate_EMA (replicate 3 (Fin 7)) 2 = Inr [NaN, Fin 7, Fin 7]"
  using constant_series_SMA_EMA [of 2 3 7]
  by (simp add: upt_conv_Cons numeral_3_eq_3)

text \<open>For the increasing prices 1, 2, 3 and window 2 neither average equals the input:
  at the last row the input is 3, the simple average 5/2 and the exponential one 34/13.
  Nor does every indicator of a constant series reach the constant: the MACD of the
  constant 7 is 0 where it is defined.\<close>

theorem increasing_series_SMA_EMA_counterexample:
  "calculate_SMA (map Fin [1, 2, 3]) 2 = Inr [NaN, Fin (3 / 2), Fin (5 / 2)] \<and>
   calculate_EMA (map Fin [1, 2, 3]) 2 = Inr [NaN, Fin (7 / 4), Fin (34 / 13)] \<and>
   map Fin [1, 2, 3] ! 2 = Fin 3 \<and> Fin (5 / 2) \<noteq> Fin 3 \<and> Fin (34 / 13) \<noteq> Fin 3 \<and>
   calculate_MACD (replicate 3 (Fin 7)) 2 1 1 = Inr ([NaN, Fin 0, Fin 0], [NaN, Fin 0, Fin 0])"
  by (simp add: calculate_SMA_def rolling_def rolling_mean_def roll_mean_loop.simps
      roll_step_def calculate_EMA_def py_div_def ewm_mean_def is_obs_def Let_def
      calculate_MACD_def series_sub_def fsub_def numeral_3_eq_3)

section \<open>The relative strength index: its bound and its missing values\<close>

lemma fdiv_NaN_right [simp]: "fdiv x NaN = NaN"
  by (cases x) simp_all

lemma fadd_NaN_right [simp]: "fadd x NaN = NaN"
  by (cases x) simp_all

lemma flt_asym: "flt a b \<Longrightarrow> \<not> flt b a"
  by (cases a; cases b) simp_all

lemma series_get_defined: "series_get s l \<noteq> NaN \<Longrightarrow> l \<in> fst ` set s"
  by (auto simp: series_get_def split: option.splits dest!: map_of_SomeD intro: rev_image_eqI)

lemma series_ewm_labels:
  "series_ewm alpha mp s = Inr t \<Longrightarrow> fst ` set t \<subseteq> fst ` set s"
  by (auto simp: series_ewm_def ewm_mean_def split: if_splits dest!: set_zip_leftD)

lemma with_index_functional:
  "(l, v) \<in> set (with_index xs) \<Longrightarrow> (l, v') \<in> set (with_index xs) \<Longrightarrow> v = v'"
  by (auto simp: with_index_def set_zip)

lemma series_div_all_NaN:
  assumes "fst ` set s \<inter> fst ` set t = {}"
  shows "(l, v) \<in> set (series_div s t) \<Longrightarrow> v = NaN"
proof -
  have "series_get s k = NaN \<or> series_get t k = NaN" for k
    using assms series_get_defined [of s k] series_get_defined [of t k] by blast
  then have "fdiv (series_get s k) (series_get t k) = NaN" for k
    by (metis fdiv.simps(1) fdiv_NaN_right)
  then show "(l, v) \<in> set (series_div s t) \<Longrightarrow> v = NaN"
    by (auto simp: series_div_def)
qed

lemma up_down_disjoint:
  "fst ` set (filter (\<lambda>(l, v). fgt v (Fin 0)) (with_index xs)) \<inter>
   fst ` set (map (\<lambda>(l, v). (l, fabs v)) (filter (\<lambda>(l, v). flt v (Fin 0)) (with_index xs))) = {}"
proof -
  have False if "(l, v) \<in> set (with_index xs)" "fgt v (Fin 0)"
    "(l, v') \<in> set (with_index xs)" "flt v' (Fin 0)" for l v v'
  proof -
    have "v = v'" using that(1,3) by (rule with_index_functional)
    with that(2,4) show False by (auto simp: fgt_def dest: flt_asym)
  qed
  then show ?thesis by (auto simp: image_iff) blast
qed

lemma calculate_RSI_all_NaN:
  assumes "calculate_RSI data window = Inr s" and "(l, v) \<in> set s"
  shows "v = NaN"
proof -
  let ?delta = "with_index (diff data)"
  let ?up = "filter (\<lambda>(l, v). fgt v (Fin 0)) ?delta"
  let ?down = "map (\<lambda>(l, v). (l, fabs v)) (filter (\<lambda>(l, v). flt v (Fin 0)) ?delta)"
  from assms(1) obtain a um dm where
    um: "series_ewm a window ?up = Inr um" and dm: "series_ewm a window ?down = Inr dm"
    and s: "s = map (\<lambda>(l, v). (l, fsub (Fin 100) (fdiv (Fin 100) (fadd (Fin 1) v))))
                 (series_div um dm)"
    by (auto simp: calculate_RSI_def rsi_from_means_def Let_def bindE_def py_div_def
        split: sum.splits if_splits)
  have "fst ` set um \<inter> fst ` set dm = {}"
    using series_ewm_labels [OF um] series_ewm_labels [OF dm] up_down_disjoint [of "diff data"]
    by blast
  then have allnan: "\<And>l v. (l, v) \<in> set (series_div um dm) \<Longrightarrow> v = NaN"
    by (rule series_div_all_NaN)
  from assms(2) obtain b where b: "(l, b) \<in> set (series_div um dm)"
    and v: "v = fsub (Fin 100) (fdiv (Fin 100) (fadd (Fin 1) b))"
    unfolding s by auto
  from allnan [OF b] v show ?thesis
    by (simp add: fsub_def)
qed

lemma calculate_RSI_returns: "0 < w \<Longrightarrow> \<exists>s. calculate_RSI d w = Inr s"
proof -
  assume w: "0 < w"
  then have "1 \<le> real_of_int w" by simp
  then have "1 / real_of_int w \<le> 1" "0 < 1 / real_of_int w" "real_of_int w \<noteq> 0"
    by (simp_all add: field_simps)
  then show ?thesis
    by (simp add: calculate_RSI_def py_div_def series_ewm_def ewm_mean_def Let_def
        not_le [symmetric])
qed

lemma reindex_RSI:
  assumes "calculate_RSI d w = Inr s"
  shows "reindex n s = replicate n NaN"
proof -
  have "series_get s l = NaN" for l
    using calculate_RSI_all_NaN [OF assms]
    by (auto simp: series_get_def split: option.splits dest!: map_of_SomeD)
  then have "series_get s = (\<lambda>_. NaN)" by (rule ext)
  then show ?thesis
    by (simp add: reindex_def map_replicate_const)
qed









text \<open>
  C5. For the rising prices 1, 2, 3 and window 2 there is no loss and the average gain at
  the last row is 1; \<open>calculate_RSI\<close> returns NaN at both of its rows, not 100.
\<close>

theorem calculate_RSI_no_loss:
  "calculate_RSI [Fin 1, Fin 2, Fin 3] 2 = Inr [(1, NaN), (2, NaN)]"
  by (simp add: calculate_RSI_def rsi_from_means_def diff_def with_index_def upt_conv_Cons
      fsub_def fgt_def py_div_def series_ewm_def ewm_mean_def is_obs_def Let_def
      series_div_def series_get_def)

section \<open>Causality of the feature table\<close>

lemma roll_step_take:
  "i < n \<Longrightarrow> roll_step w (take n xs) i st = roll_step w xs i st"
  by (simp add: roll_step_def)

lemma take_roll_mean_loop:
  "n \<le> length xs \<Longrightarrow>
     roll_mean_loop w (take n xs) i st = take (n - i) (roll_mean_loop w xs i st)"
proof (induction w xs i st rule: roll_mean_loop.induct)
  case (1 w xs i st)
  show ?case
  proof (cases "i < n")
    case True
    then have lt: "i < length xs" using "1.prems" by simp
    have ih: "roll_mean_loop w (take n xs) (i + 1) (roll_step w xs i st)
        = take (n - (i + 1)) (roll_mean_loop w xs (i + 1) (roll_step w xs i st))"
      using "1.IH" [OF lt refl] "1.prems" by simp
    have "n - i = Suc (n - (i + 1))" using True by simp
    then show ?thesis
      using True lt ih "1.prems"
      by (subst roll_mean_loop.simps, subst (2) roll_mean_loop.simps)
        (simp add: Let_def roll_step_take)
  next
    case False
    then show ?thesis using "1.prems" by (subst roll_mean_loop.simps) simp
  qed
qed

lemma take_rolling_mean: "take n (rolling_mean w xs) = rolling_mean w (take n xs)"
proof (cases "n \<le> length xs")
  case True
  then show ?thesis
    using take_roll_mean_loop [of n "map inf_to_nan xs" w 0 "(0, 0)"]
    by (simp add: rolling_mean_def take_map)
next
  case False
  then show ?thesis by simp
qed

lemma window_at_take: "i < n \<Longrightarrow> window_at w (take n xs) i = window_at w xs i"
proof -
  assume i: "i < n"
  have "take w (drop (i + 1 - w) (take n xs)) = take w (drop (i + 1 - w) xs)" if "w \<le> i + 1"
  proof -
    have "min w (n - (i + 1 - w)) = w" using that i by simp
    then show ?thesis by (simp add: drop_take)
  qed
  then show ?thesis by (simp add: window_at_def)
qed

lemma take_rolling_std: "take n (rolling_std w xs) = rolling_std w (take n xs)"
  by (simp add: rolling_std_def take_map window_at_take min_def)

lemma take_ewm_loop: "take n (ewm_loop a m wgt ow k xs) = ewm_loop a m wgt ow k (take n xs)"
proof (induction xs arbitrary: n wgt ow k)
  case Nil
  then show ?case by simp
next
  case (Cons x xs)
  show ?case
  proof (cases n)
    case 0
    then show ?thesis by simp
  next
    case (Suc n')
    show ?thesis
      unfolding Suc take_Suc_Cons ewm_loop.simps Let_def by (simp only: Cons.IH)
  qed
qed

lemma take_diff: "take n (diff xs) = diff (take n xs)"
  by (simp add: diff_def take_map min_def)

lemma take_series_sub: "take n (series_sub a b) = series_sub (take n a) (take n b)"
  by (simp add: series_sub_def take_map take_zip)

lemma take_series_add: "take n (series_add a b) = series_add (take n a) (take n b)"
  by (simp add: series_add_def take_map take_zip)

lemma take_series_gt: "take n (series_gt a b) = series_gt (take n a) (take n b)"
  by (simp add: series_gt_def take_map take_zip)

lemma take_scalar_mul: "take n (scalar_mul c a) = scalar_mul c (take n a)"
  by (simp add: scalar_mul_def take_map)

lemma create_features_closed:
  "create_features data = Inr (feature_table (series_index data) (series_values data))"
proof -
  let ?d = "series_values data"
  obtain s where s: "calculate_RSI ?d 14 = Inr s"
    using calculate_RSI_returns [of 14 ?d] by auto
  have macd: "calculate_MACD ?d 26 12 9
      = Inr (series_sub (ema 12 ?d) (ema 26 ?d), ema 9 (series_sub (ema 12 ?d) (ema 26 ?d)))"
    by (simp add: calculate_MACD_composed)
  have bb: "calculate_bollinger_bands ?d 20
      = Inr (series_add (rolling_mean 20 ?d) (scalar_mul (Fin 2) (rolling_std 20 ?d)),
             series_sub (rolling_mean 20 ?d) (scalar_mul (Fin 2) (rolling_std 20 ?d)))"
    by (simp add: calculate_bollinger_bands_def rolling_def Let_def)
  have sma: "calculate_SMA ?d 20 = Inr (rolling_mean 20 ?d)"
    by (simp add: calculate_SMA_def rolling_def)
  show ?thesis
    unfolding create_features_def feature_table_def
    by (simp add: sma calculate_EMA_ema macd s bb reindex_RSI [OF s] Let_def)
qed

lemma take_ema: "take n (ema w xs) = ema w (take n xs)"
  by (simp add: ema_def take_ewm_loop take_map)

lemma feature_table_take:
  "SMA_20 (feature_table idx' (take n d)) = take n (SMA_20 (feature_table idx d))"
  "EMA_12 (feature_table idx' (take n d)) = take n (EMA_12 (feature_table idx d))"
  "MACD (feature_table idx' (take n d)) = take n (MACD (feature_table idx d))"
  "MACD_signal (feature_table idx' (take n d)) = take n (MACD_signal (feature_table idx d))"
  "RSI_14 (feature_table idx' (take n d)) = take n (RSI_14 (feature_table idx d))"
  "BB_upper (feature_table idx' (take n d)) = take n (BB_upper (feature_table idx d))"
  "BB_lower (feature_table idx' (take n d)) = take n (BB_lower (feature_table idx d))"
  "EMA_crossover (feature_table idx' (take n d)) = take n (EMA_crossover (feature_table idx d))"
  "RSI_momentum (feature_table idx' (take n d)) = take n (RSI_momentum (feature_table idx d))"
  "BB_width (feature_table idx' (take n d)) = take n (BB_width (feature_table idx d))"
proof -
  have rep: "take n (replicate (length d) NaN) = replicate (length (take n d)) NaN"
    by (simp add: min.commute)
  note takes = take_rolling_mean take_ema take_series_sub take_series_add
    take_series_gt take_scalar_mul take_rolling_std take_diff rep
  show "SMA_20 (feature_table idx' (take n d)) = take n (SMA_20 (feature_table idx d))"
    "EMA_12 (feature_table idx' (take n d)) = take n (EMA_12 (feature_table idx d))"
    "MACD (feature_table idx' (take n d)) = take n (MACD (feature_table idx d))"
    "MACD_signal (feature_table idx' (take n d)) = take n (MACD_signal (feature_table idx d))"
    "RSI_14 (feature_table idx' (take n d)) = take n (RSI_14 (feature_table idx d))"
    "BB_upper (feature_table idx' (take n d)) = take n (BB_upper (feature_table idx d))"
    "BB_lower (feature_table idx' (take n d)) = take n (BB_lower (feature_table idx d))"
    "EMA_crossover (feature_table idx' (take n d)) = take n (EMA_crossover (feature_table idx d))"
    "RSI_momentum (feature_table idx' (take n d)) = take n (RSI_momentum (feature_table idx d))"
    "BB_width (feature_table idx' (take n d)) = take n (BB_width (feature_table idx d))"
    unfolding feature_table_def by (simp_all add: takes min.commute)
qed

lemma feature_row_prefix:
  assumes "i < n"
  shows "feature_row (feature_table idx' (take n d)) i = feature_row (feature_table idx d) i"
  unfolding feature_row_def using assms by (simp add: feature_table_take [of idx' n d idx])

lemma column_lengths_feature_table:
  "column_lengths (feature_table idx d) = replicate 10 (length d)"
  by (simp add: column_lengths_def feature_table_def ema_def numeral_eq_Suc)

text \<open>
  C6. \<open>create_features\<close> always returns a table with the index of the price series and
  one row per price, and for two price series that agree on rows \<open>0, ..., i\<close> the two
  tables have the same row \<open>i\<close>: no column looks at a later row.
\<close>

theorem create_features_causal:
  assumes "i < length (series_values d1)" and "i < length (series_values d2)"
    and "take (Suc i) (series_values d1) = take (Suc i) (series_values d2)"
  shows "\<exists>f1 f2. create_features d1 = Inr f1 \<and> create_features d2 = Inr f2 \<and>
     table_index f1 = series_index d1 \<and> table_index f2 = series_index d2 \<and>
     column_lengths f1 = replicate 10 (length (series_values d1)) \<and>
     column_lengths f2 = replicate 10 (length (series_values d2)) \<and>
     feature_row f1 i = feature_row f2 i"
proof -
  let ?f1 = "feature_table (series_index d1) (series_values d1)"
  let ?f2 = "feature_table (series_index d2) (series_values d2)"
  have lt: "i < Suc i" by simp
  have "feature_row ?f1 i = feature_row (feature_table [] (take (Suc i) (series_values d1))) i"
    by (rule feature_row_prefix [OF lt, symmetric])
  also have "\<dots> = feature_row (feature_table [] (take (Suc i) (series_values d2))) i"
    using assms(3) by simp
  also have "\<dots> = feature_row ?f2 i"
    by (rule feature_row_prefix [OF lt])
  finally have rows: "feature_row ?f1 i = feature_row ?f2 i" .
  have "table_index ?f1 = series_index d1" "table_index ?f2 = series_index d2"
    by (simp_all add: feature_table_def)
  with rows show ?thesis
    by (simp add: create_features_closed column_lengths_feature_table)
qed

theorem create_features_causal_witness:
  "1 < length (series_values \<lparr>series_index = range_index 3, series_values = [Fin 1, Fin 2, Fin 3]\<rparr>) \<and>
   1 < length (series_values
         \<lparr>series_index = range_index 4, series_values = [Fin 1, Fin 2, Fin 7, Fin 9]\<rparr>) \<and>
   take (Suc 1) [Fin 1, Fin 2, Fin 3] = take (Suc 1) [Fin 1, Fin 2, Fin 7, Fin 9] \<and>
   (\<exists>f1 f2.
      create_features \<lparr>series_index = range_index 3, series_values = [Fin 1, Fin 2, Fin 3]\<rparr>
        = Inr f1 \<and>
      create_features
        \<lparr>series_index = range_index 4, series_values = [Fin 1, Fin 2, Fin 7, Fin 9]\<rparr>
        = Inr f2 \<and>
      column_lengths f1 = replicate 10 (length [Fin 1, Fin 2, Fin 3]) \<and>
      column_lengths f2 = replicate 10 (length [Fin 1, Fin 2, Fin 7, Fin 9]) \<and>
      feature_row f1 1 = feature_row f2 1)"
  using create_features_causal [of 1
      "\<lparr>series_index = range_index 3, series_values = [Fin 1, Fin 2, Fin 3]\<rparr>"
      "\<lparr>series_index = range_index 4, series_values = [Fin 1, Fin 2, Fin 7, Fin 9]\<rparr>"]
  by auto

section \<open>Labelling\<close>

lemma define_target_loop_labels:
  assumes "table_index f = range_index n"
    and "\<forall>i \<in> set rows. i < n \<and> i < length (EMA_crossover f) \<and> i < length (RSI_14 f)"
  shows "define_target_loop f rows acc
    = Inr (acc @ map (\<lambda>i. label_rule (EMA_crossover f ! i) (RSI_14 f ! i)) rows)"
  using assms(2)
  by (induction rows arbitrary: acc)
    (simp_all add: assms(1) loc_range_index py_and_def label_rule_def)

lemma define_target_labels_every_row:
  assumes "table_index f = range_index (length (series_values data))"
    and "length (series_index data) = length (series_values data)"
    and "length (EMA_crossover f) = length (series_values data)"
    and "length (RSI_14 f) = length (series_values data)"
  shows "define_target data f
    = Inr (map (\<lambda>i. label_rule (EMA_crossover f ! i) (RSI_14 f ! i))
             [0..<length (series_values data)])"
  using assms(2-)
  by (simp add: define_target_def define_target_loop_labels [OF assms(1)] pd_Series_def)

lemma define_target_date_index:
  assumes "table_index f = map DateLabel ds" and "series_values data \<noteq> []"
  shows "define_target data f = Inl KeyError"
proof -
  from assms(2) have "[0..<length (series_values data)] = 0 # [Suc 0..<length (series_values data)]"
    by (intro upt_conv_Cons) simp
  then show ?thesis
    by (simp add: define_target_def assms(1) loc_dates)
qed

lemma define_target_cell2_many_rows:
  assumes "2 \<le> length (series_values data)"
    and "length (series_index data) = length (series_values data)"
    and "table_index f = range_index (length (series_values data))"
    and "0 < length (RSI_14 f)" and "0 < length (SMA_20 f)"
  shows "define_target_cell2 data f = Inl ValueError"
proof -
  from assms(1) have "[0..<length (series_values data)] = 0 # [Suc 0..<length (series_values data)]"
    by (intro upt_conv_Cons) arith
  moreover have "0 < length (series_values data)" using assms(1) by arith
  ultimately show ?thesis
    using assms by (simp add: define_target_cell2_def loc_range_index py_and_def pd_Series_def)
qed

text \<open>
  C1. The second cell's \<open>define_target\<close> returns from inside its loop: for a
  two-row price series with the default index and a table over the same two rows it has
  one label when it builds the series and raises ValueError, instead of returning two
  labels.
\<close>

theorem define_target_cell2_two_rows:
  "define_target_cell2
     \<lparr>series_index = [IntLabel 0, IntLabel 1], series_values = [Fin 100, Fin 101]\<rparr>
     \<lparr>table_index = [IntLabel 0, IntLabel 1],
      SMA_20 = [NaN, NaN], RSI_14 = [NaN, NaN], MACD = [NaN, NaN], MACD_signal = [NaN, NaN],
      BB_upper = [NaN, NaN], BB_lower = [NaN, NaN], RSI_momentum = [NaN, NaN],
      BB_width = [NaN, NaN]\<rparr> = Inl ValueError"
  by (simp add: define_target_cell2_def upt_conv_Cons loc_def py_and_def pd_Series_def)

section \<open>Evaluation\<close>

lemma evaluate_auc_columns:
  "evaluate_auc roc_auc_score [Buy, Sell] [Hold, Buy]
     = roc_auc_score ([Buy, Sell], [[1, 0], [0, 1]]) ([Buy, Hold], [[0, 1], [1, 0]])"
  by (simp add: evaluate_auc_def get_dummies_def)

text \<open>
  C8. \<open>build_model\<close> hands \<open>roc_auc_score\<close> one number per sample, the probability
  of the class in column 1: for the three-class probabilities (1/5, 3/10, 1/2) and
  (1/2, 1/4, 1/4) the scores are 3/10 and 1/4, whatever the labels.
\<close>

theorem build_model_auc_single_column:
  "build_model_auc roc_auc_score y_test [[1 / 5, 3 / 10, 1 / 2], [1 / 2, 1 / 4, 1 / 4]]
     = roc_auc_score y_test (Vec [3 / 10, 1 / 4])"
  by (simp add: build_model_auc_def column_at_def)

section \<open>The signal after the first notebook's feature step\<close>

lemma calculate_SMA_Close_of_labels:
  "data ''Close'' = Some (Labels xs) \<Longrightarrow> 0 \<le> w \<Longrightarrow> calculate_SMA_Close data w = Inl DataError"
  by (simp add: calculate_SMA_Close_def get_column_def rolling_column_mean_def)

lemma trading_decision_after_create_features:
  assumes "data ''Close'' = Some (Floats close)"
  shows "\<exists>d1 d2 signal. create_features_Close data = Inr d1 \<and>
     trading_decision d1 = Inr (d2, signal) \<and> length signal = length close \<and>
     Hold \<notin> set signal"
  using assms
  by (auto simp: create_features_Close_def calculate_SMA_Close_def trading_decision_def
      get_column_def rolling_column_mean_def np_where_def series_gt_def rolling_mean_def
      length_roll_mean_loop Let_def)

section \<open>The driver's steps\<close>

text \<open>
  With \<open>RSI_14\<close> undefined at every row the labelling rule never fires: on a series
  with the default index the driver's steps label every row Hold, and when the download
  and the model fit succeed below the recursion limit the call of \<open>main\<close> continues as
  the next call of \<open>main\<close>. On a series indexed by dates that has a row,
  \<open>define_target\<close> raises KeyError at the first row and \<open>main\<close> ends with it.
\<close>

lemma pipeline_labels_all_Hold:
  assumes "series_index data = range_index (length (series_values data))"
  shows "define_target data (feature_table (series_index data) (series_values data))
    = Inr (replicate (length (series_values data)) Hold)"
proof -
  let ?d = "series_values data"
  let ?f = "feature_table (series_index data) ?d"
  have idx: "table_index ?f = range_index (length ?d)"
    using assms by (simp add: feature_table_def)
  have li: "length (series_index data) = length ?d"
    using arg_cong [OF assms, of length] by (simp add: range_index_def)
  have len: "length (EMA_crossover ?f) = length ?d" "length (RSI_14 ?f) = length ?d"
    by (simp_all add: feature_table_def ema_def)
  have "label_rule (EMA_crossover ?f ! i) (RSI_14 ?f ! i) = Hold" if "i < length ?d" for i
    using that by (simp add: feature_table_def label_rule_def fgt_def)
  then have "map (\<lambda>i. label_rule (EMA_crossover ?f ! i) (RSI_14 ?f ! i)) [0..<length ?d]
      = map (\<lambda>i. Hold) [0..<length ?d]"
    by (intro map_cong) simp_all
  then show ?thesis
    by (simp add: define_target_labels_every_row [OF idx li len] map_replicate_const)
qed

lemma main_calls_main:
  assumes "depth < limit" and "download_data depth = Inr data"
    and "series_index data = range_index (length (series_values data))"
    and "build_model (feature_table (series_index data) (series_values data))
           (replicate (length (series_values data)) Hold) = Inr model"
  shows "main download_data build_model limit depth
    = main download_data build_model limit (depth + 1)"
  using assms(1,2,4)
  by (subst main.simps)
    (simp add: create_features_closed pipeline_labels_all_Hold [OF assms(3)])

lemma main_date_index:
  assumes "depth < limit" and "download_data depth = Inr data"
    and "series_index data = map DateLabel ds" and "series_values data \<noteq> []"
  shows "main download_data build_model limit depth = Inl KeyError"
proof -
  have "define_target data (feature_table (series_index data) (series_values data)) = Inl KeyError"
    by (rule define_target_date_index [OF _ assms(4)]) (simp add: feature_table_def assms(3))
  then show ?thesis
    using assms(1,2) by (subst main.simps) (simp add: create_features_closed)
qed

end
